theory Spec2Isabelle
  imports Main "HOL-Library.Sublist"
begin

section \<open>Localization store\<close>

text \<open>
  The store of the i18n module: a closed set of two languages, a fixed set of 26 keys
  (\<open>keyof Translations\<close>), the static dictionary and the three members
  of the store, \<open>language\<close>, \<open>setLanguage\<close> and \<open>t\<close>.

  JavaScript strings are held as \<^typ>\<open>string\<close>; the Chinese texts are written as their
  UTF-8 bytes. Nothing below depends on the length of a text, only on whether it is
  empty and on equality.
\<close>

datatype Language = En | Zh

datatype key =
    K_initializeRun
  | K_controlHint
  | K_cyberShop
  | K_availableCredits
  | K_resumeMission
  | K_gems
  | K_doubleJump
  | K_doubleJumpDesc
  | K_maxLifeUp
  | K_maxLifeUpDesc
  | K_repairKit
  | K_repairKitDesc
  | K_immortality
  | K_immortalityDesc
  | K_gameOver
  | K_level
  | K_gemsCollected
  | K_distance
  | K_totalScore
  | K_runAgain
  | K_missionComplete
  | K_victoryMessage
  | K_finalScore
  | K_restartMission
  | K_speed
  | K_immortal

fun key_name :: "key \<Rightarrow> string" where
  "key_name K_initializeRun = ''initializeRun''"
| "key_name K_controlHint = ''controlHint''"
| "key_name K_cyberShop = ''cyberShop''"
| "key_name K_availableCredits = ''availableCredits''"
| "key_name K_resumeMission = ''resumeMission''"
| "key_name K_gems = ''gems''"
| "key_name K_doubleJump = ''doubleJump''"
| "key_name K_doubleJumpDesc = ''doubleJumpDesc''"
| "key_name K_maxLifeUp = ''maxLifeUp''"
| "key_name K_maxLifeUpDesc = ''maxLifeUpDesc''"
| "key_name K_repairKit = ''repairKit''"
| "key_name K_repairKitDesc = ''repairKitDesc''"
| "key_name K_immortality = ''immortality''"
| "key_name K_immortalityDesc = ''immortalityDesc''"
| "key_name K_gameOver = ''gameOver''"
| "key_name K_level = ''level''"
| "key_name K_gemsCollected = ''gemsCollected''"
| "key_name K_distance = ''distance''"
| "key_name K_totalScore = ''totalScore''"
| "key_name K_runAgain = ''runAgain''"
| "key_name K_missionComplete = ''missionComplete''"
| "key_name K_victoryMessage = ''victoryMessage''"
| "key_name K_finalScore = ''finalScore''"
| "key_name K_restartMission = ''restartMission''"
| "key_name K_speed = ''speed''"
| "key_name K_immortal = ''immortal''"

definition en :: "(key \<times> string) list" where
  "en =
    [(K_initializeRun, ''INITIALIZE RUN''),
     (K_controlHint, ''[ ARROWS / BUTTONS TO MOVE ]''),
     (K_cyberShop, ''CYBER SHOP''),
     (K_availableCredits, ''AVAILABLE CREDITS:''),
     (K_resumeMission, ''RESUME MISSION''),
     (K_gems, ''GEMS''),
     (K_doubleJump, ''DOUBLE JUMP''),
     (K_doubleJumpDesc, ''Jump again in mid-air. Essential for high obstacles.''),
     (K_maxLifeUp, ''MAX LIFE UP''),
     (K_maxLifeUpDesc, ''Permanently adds a heart slot and heals you.''),
     (K_repairKit, ''REPAIR KIT''),
     (K_repairKitDesc, ''Restores 1 Life point instantly.''),
     (K_immortality, ''IMMORTALITY''),
     (K_immortalityDesc, ''Unlock Ability: Press Space/Tap to be invincible for 5s.''),
     (K_gameOver, ''GAME OVER''),
     (K_level, ''LEVEL''),
     (K_gemsCollected, ''GEMS COLLECTED''),
     (K_distance, ''DISTANCE''),
     (K_totalScore, ''TOTAL SCORE''),
     (K_runAgain, ''RUN AGAIN''),
     (K_missionComplete, ''MISSION COMPLETE''),
     (K_victoryMessage, ''THE ANSWER TO THE UNIVERSE HAS BEEN FOUND''),
     (K_finalScore, ''FINAL SCORE''),
     (K_restartMission, ''RESTART MISSION''),
     (K_speed, ''SPEED''),
     (K_immortal, ''IMMORTAL'')]"

definition zh :: "(key \<times> string) list" where
  "zh =
    [(K_initializeRun,
      [CHR 0xE5, CHR 0xBC, CHR 0x80, CHR 0xE5, CHR 0xA7, CHR 0x8B, CHR 0xE6,
       CHR 0xB8, CHR 0xB8, CHR 0xE6, CHR 0x88, CHR 0x8F]),
     (K_controlHint,
      [CHR ''['', CHR '' '', CHR 0xE6, CHR 0x96, CHR 0xB9, CHR 0xE5, CHR 0x90,
       CHR 0x91, CHR 0xE9, CHR 0x94, CHR 0xAE, CHR '' '', CHR ''/'', CHR '' '',
       CHR 0xE6, CHR 0x8C, CHR 0x89, CHR 0xE9, CHR 0x92, CHR 0xAE, CHR 0xE7,
       CHR 0xA7, CHR 0xBB, CHR 0xE5, CHR 0x8A, CHR 0xA8, CHR '' '', CHR '']'']),
     (K_cyberShop,
      [CHR 0xE8, CHR 0xB5, CHR 0x9B, CHR 0xE5, CHR 0x8D, CHR 0x9A, CHR 0xE5,
       CHR 0x95, CHR 0x86, CHR 0xE5, CHR 0xBA, CHR 0x97]),
     (K_availableCredits,
      [CHR 0xE5, CHR 0x8F, CHR 0xAF, CHR 0xE7, CHR 0x94, CHR 0xA8, CHR 0xE7,
       CHR 0xA7, CHR 0xAF, CHR 0xE5, CHR 0x88, CHR 0x86, CHR 0xEF, CHR 0xBC, CHR 0x9A]),
     (K_resumeMission,
      [CHR 0xE7, CHR 0xBB, CHR 0xA7, CHR 0xE7, CHR 0xBB, CHR 0xAD, CHR 0xE4,
       CHR 0xBB, CHR 0xBB, CHR 0xE5, CHR 0x8A, CHR 0xA1]),
     (K_gems,
      [CHR 0xE5, CHR 0xAE, CHR 0x9D, CHR 0xE7, CHR 0x9F, CHR 0xB3]),
     (K_doubleJump,
      [CHR 0xE4, CHR 0xBA, CHR 0x8C, CHR 0xE6, CHR 0xAE, CHR 0xB5, CHR 0xE8,
       CHR 0xB7, CHR 0xB3]),
     (K_doubleJumpDesc,
      [CHR 0xE5, CHR 0x9C, CHR 0xA8, CHR 0xE7, CHR 0xA9, CHR 0xBA, CHR 0xE4,
       CHR 0xB8, CHR 0xAD, CHR 0xE5, CHR 0x86, CHR 0x8D, CHR 0xE6, CHR 0xAC,
       CHR 0xA1, CHR 0xE8, CHR 0xB7, CHR 0xB3, CHR 0xE8, CHR 0xB7, CHR 0x83,
       CHR 0xEF, CHR 0xBC, CHR 0x8C, CHR 0xE8, CHR 0xB7, CHR 0xA8, CHR 0xE8,
       CHR 0xB6, CHR 0x8A, CHR 0xE9, CHR 0xAB, CHR 0x98, CHR 0xE9, CHR 0x9A,
       CHR 0x9C, CHR 0xE7, CHR 0xA2, CHR 0x8D, CHR 0xE5, CHR 0xBF, CHR 0x85,
       CHR 0xE5, CHR 0xA4, CHR 0x87, CHR 0xE3, CHR 0x80, CHR 0x82]),
     (K_maxLifeUp,
      [CHR 0xE7, CHR 0x94, CHR 0x9F, CHR 0xE5, CHR 0x91, CHR 0xBD, CHR 0xE4,
       CHR 0xB8, CHR 0x8A, CHR 0xE9, CHR 0x99, CHR 0x90, CHR 0xE6, CHR 0x8F,
       CHR 0x90, CHR 0xE5, CHR 0x8D, CHR 0x87]),
     (K_maxLifeUpDesc,
      [CHR 0xE6, CHR 0xB0, CHR 0xB8, CHR 0xE4, CHR 0xB9, CHR 0x85, CHR 0xE5,
       CHR 0xA2, CHR 0x9E, CHR 0xE5, CHR 0x8A, CHR 0xA0, CHR 0xE4, CHR 0xB8,
       CHR 0x80, CHR 0xE9, CHR 0xA2, CHR 0x97, CHR 0xE5, CHR 0xBF, CHR 0x83,
       CHR 0xE5, CHR 0xB9, CHR 0xB6, CHR 0xE6, CHR 0x81, CHR 0xA2, CHR 0xE5,
       CHR 0xA4, CHR 0x8D, CHR 0xE7, CHR 0x94, CHR 0x9F, CHR 0xE5, CHR 0x91,
       CHR 0xBD, CHR 0xE3, CHR 0x80, CHR 0x82]),
     (K_repairKit,
      [CHR 0xE4, CHR 0xBF, CHR 0xAE, CHR 0xE5, CHR 0xA4, CHR 0x8D, CHR 0xE5,
       CHR 0xB7, CHR 0xA5, CHR 0xE5, CHR 0x85, CHR 0xB7]),
     (K_repairKitDesc,
      [CHR 0xE7, CHR 0xAB, CHR 0x8B, CHR 0xE5, CHR 0x8D, CHR 0xB3, CHR 0xE6,
       CHR 0x81, CHR 0xA2, CHR 0xE5, CHR 0xA4, CHR 0x8D, CHR ''1'', CHR 0xE7,
       CHR 0x82, CHR 0xB9, CHR 0xE7, CHR 0x94, CHR 0x9F, CHR 0xE5, CHR 0x91,
       CHR 0xBD, CHR 0xE5, CHR 0x80, CHR 0xBC, CHR 0xE3, CHR 0x80, CHR 0x82]),
     (K_immortality,
      [CHR 0xE6, CHR 0x97, CHR 0xA0, CHR 0xE6, CHR 0x95, CHR 0x8C, CHR 0xE6,
       CHR 0x8A, CHR 0xA4, CHR 0xE7, CHR 0x9B, CHR 0xBE]),
     (K_immortalityDesc,
      [CHR 0xE8, CHR 0xA7, CHR 0xA3, CHR 0xE9, CHR 0x94, CHR 0x81, CHR 0xE6,
       CHR 0x8A, CHR 0x80, CHR 0xE8, CHR 0x83, CHR 0xBD, CHR 0xEF, CHR 0xBC,
       CHR 0x9A, CHR 0xE6, CHR 0x8C, CHR 0x89, CHR 0xE7, CHR 0xA9, CHR 0xBA,
       CHR 0xE6, CHR 0xA0, CHR 0xBC, CHR ''/'', CHR 0xE7, CHR 0x82, CHR 0xB9,
       CHR 0xE5, CHR 0x87, CHR 0xBB, CHR 0xE5, CHR 0x8F, CHR 0xAF, CHR 0xE6,
       CHR 0x97, CHR 0xA0, CHR 0xE6, CHR 0x95, CHR 0x8C, CHR ''5'', CHR 0xE7,
       CHR 0xA7, CHR 0x92, CHR 0xE3, CHR 0x80, CHR 0x82]),
     (K_gameOver,
      [CHR 0xE6, CHR 0xB8, CHR 0xB8, CHR 0xE6, CHR 0x88, CHR 0x8F, CHR 0xE7,
       CHR 0xBB, CHR 0x93, CHR 0xE6, CHR 0x9D, CHR 0x9F]),
     (K_level,
      [CHR 0xE5, CHR 0x85, CHR 0xB3, CHR 0xE5, CHR 0x8D, CHR 0xA1]),
     (K_gemsCollected,
      [CHR 0xE6, CHR 0x94, CHR 0xB6, CHR 0xE9, CHR 0x9B, CHR 0x86, CHR 0xE5,
       CHR 0xAE, CHR 0x9D, CHR 0xE7, CHR 0x9F, CHR 0xB3]),
     (K_distance,
      [CHR 0xE8, CHR 0xB7, CHR 0x9D, CHR 0xE7, CHR 0xA6, CHR 0xBB]),
     (K_totalScore,
      [CHR 0xE6, CHR 0x80, CHR 0xBB, CHR 0xE5, CHR 0x88, CHR 0x86]),
     (K_runAgain,
      [CHR 0xE5, CHR 0x86, CHR 0x8D, CHR 0xE6, CHR 0x9D, CHR 0xA5, CHR 0xE4,
       CHR 0xB8, CHR 0x80, CHR 0xE6, CHR 0xAC, CHR 0xA1]),
     (K_missionComplete,
      [CHR 0xE4, CHR 0xBB, CHR 0xBB, CHR 0xE5, CHR 0x8A, CHR 0xA1, CHR 0xE5,
       CHR 0xAE, CHR 0x8C, CHR 0xE6, CHR 0x88, CHR 0x90]),
     (K_victoryMessage,
      [CHR 0xE5, CHR 0xAE, CHR 0x87, CHR 0xE5, CHR 0xAE, CHR 0x99, CHR 0xE7,
       CHR 0x9A, CHR 0x84, CHR 0xE7, CHR 0xAD, CHR 0x94, CHR 0xE6, CHR 0xA1,
       CHR 0x88, CHR 0xE5, CHR 0xB7, CHR 0xB2, CHR 0xE8, CHR 0xA2, CHR 0xAB,
       CHR 0xE6, CHR 0x89, CHR 0xBE, CHR 0xE5, CHR 0x88, CHR 0xB0]),
     (K_finalScore,
      [CHR 0xE6, CHR 0x9C, CHR 0x80, CHR 0xE7, CHR 0xBB, CHR 0x88, CHR 0xE5,
       CHR 0xBE, CHR 0x97, CHR 0xE5, CHR 0x88, CHR 0x86]),
     (K_restartMission,
      [CHR 0xE9, CHR 0x87, CHR 0x8D, CHR 0xE6, CHR 0x96, CHR 0xB0, CHR 0xE5,
       CHR 0xBC, CHR 0x80, CHR 0xE5, CHR 0xA7, CHR 0x8B]),
     (K_speed,
      [CHR 0xE9, CHR 0x80, CHR 0x9F, CHR 0xE5, CHR 0xBA, CHR 0xA6]),
     (K_immortal,
      [CHR 0xE6, CHR 0x97, CHR 0xA0, CHR 0xE6, CHR 0x95, CHR 0x8C])]"

text \<open>
  The module's constant table of texts, one object literal for each language (the
  source's name for the table is a reserved word here). Reading a property,
  \<open>dictionary lang key\<close>, yields the text, or \<open>undefined\<close> (here \<open>None\<close>) when the
  object has no such property.
\<close>

definition dictionary :: "Language \<Rightarrow> key \<rightharpoonup> string" where
  "dictionary lang = map_of (case lang of En \<Rightarrow> en | Zh \<Rightarrow> zh)"

text \<open>
  \<open>a || b\<close> where \<open>b\<close> is a string: \<open>a\<close> when it is truthy, \<open>b\<close> otherwise. Both
  \<open>undefined\<close> and the empty string are falsy.
\<close>

fun or_else :: "string option \<Rightarrow> string \<Rightarrow> string" where
  "or_else None b = b"
| "or_else (Some a) b = (if a = [] then b else a)"

record I18nState =
  language :: Language

definition initialState :: I18nState where
  "initialState = \<lparr>language = En\<rparr>"

definition setLanguage :: "Language \<Rightarrow> I18nState \<Rightarrow> I18nState" where
  "setLanguage lang st = st\<lparr>language := lang\<rparr>"

text \<open>
  The lookup \<open>t\<close>, first over any dictionary, then over the module's own. The chain
  \<open>x || y || key\<close> associates to the left in the source; \<open>||\<close> yields the first
  truthy operand or the last one, whichever way it is bracketed.
\<close>

definition t_in :: "(Language \<Rightarrow> key \<rightharpoonup> string) \<Rightarrow> I18nState \<Rightarrow> key \<Rightarrow> string" where
  "t_in dict st k =
     (let lang = language st
      in or_else (dict lang k) (or_else (dict En k) (key_name k)))"

definition t :: "I18nState \<Rightarrow> key \<Rightarrow> string" where
  "t = t_in dictionary"


section \<open>Install advisor: platform classifier\<close>

text \<open>
  The regular expressions of the source are alternations of literal tokens, tested
  anywhere in the user agent: \<open>re_test\<close> is \<open>/a|b|c/.test(s)\<close> and \<open>re_test_i\<close>
  is the same under the \<open>i\<close> flag. Without the \<open>u\<close> flag, JavaScript folds case so that
  no character outside ASCII ever equals an ASCII letter, so folding the ASCII letters
  is the whole of it.
\<close>

fun starts_with :: "string \<Rightarrow> string \<Rightarrow> bool" where
  "starts_with [] s = True"
| "starts_with (p # ps) [] = False"
| "starts_with (p # ps) (c # cs) = (p = c \<and> starts_with ps cs)"

fun occurs_in :: "string \<Rightarrow> string \<Rightarrow> bool" where
  "occurs_in pat [] = (pat = [])"
| "occurs_in pat (c # cs) = (starts_with pat (c # cs) \<or> occurs_in pat cs)"

fun re_test :: "string list \<Rightarrow> string \<Rightarrow> bool" where
  "re_test [] s = False"
| "re_test (p # ps) s = (occurs_in p s \<or> re_test ps s)"

definition to_lower :: "char \<Rightarrow> char" where
  "to_lower c =
     (let n = (of_char c :: nat) in if 65 \<le> n \<and> n \<le> 90 then char_of (n + 32) else c)"

definition re_test_i :: "string list \<Rightarrow> string \<Rightarrow> bool" where
  "re_test_i ps s = re_test (map (map to_lower) ps) (map to_lower s)"

text \<open>
  \<open>PromptType\<close>: \<open>'none' | 'native' | 'ios-safari' | 'ios-other' | 'wechat' |
  'android-fallback'\<close>.
\<close>

datatype PromptType =
  P_none | P_native | P_ios_safari | P_ios_other | P_wechat | P_android_fallback

text \<open>
  What \<open>detectPlatform\<close> reads from the browser: \<open>navigator.userAgent\<close>, the media query
  \<open>(display-mode: standalone)\<close>, whether \<open>navigator.standalone === true\<close>,
  \<open>navigator.platform\<close> and \<open>navigator.maxTouchPoints\<close>.
\<close>

record environment =
  userAgent :: string
  displayModeStandalone :: bool
  navigatorStandalone :: bool
  platform :: string
  maxTouchPoints :: int

record Detected =
  detected :: PromptType
  isStandalone :: bool

definition iosDevices :: "string list" where
  "iosDevices = [''iPad'', ''iPhone'', ''iPod'']"

definition inAppSignatures :: "string list" where
  "inAppSignatures = [''MicroMessenger'', ''QQ/'', ''wxwork'', ''DingTalk'', ''Weibo'']"

definition otherBrowserTokens :: "string list" where
  "otherBrowserTokens = [''Chrome'', ''CriOS'', ''FxiOS'', ''EdgiOS'', ''OPiOS'']"

text \<open>The local constants of \<open>detectPlatform\<close>, in the order the source computes them.\<close>

definition standalone :: "environment \<Rightarrow> bool" where
  "standalone e = (displayModeStandalone e \<or> navigatorStandalone e)"

definition isIOS :: "environment \<Rightarrow> bool" where
  "isIOS e =
     (re_test iosDevices (userAgent e)
      \<or> (platform e = ''MacIntel'' \<and> maxTouchPoints e > 1))"

definition isInApp :: "string \<Rightarrow> bool" where
  "isInApp ua = re_test_i inAppSignatures ua"

definition isSafari :: "string \<Rightarrow> bool" where
  "isSafari ua = (re_test [''Safari''] ua \<and> \<not> re_test otherBrowserTokens ua)"

definition detectPlatform :: "environment \<Rightarrow> Detected" where
  "detectPlatform e =
     (let ua = userAgent e
      in if standalone e then \<lparr>detected = P_none, isStandalone = True\<rparr>
         else if isInApp ua then \<lparr>detected = P_wechat, isStandalone = False\<rparr>
         else if isIOS e then
           (if isSafari ua then \<lparr>detected = P_ios_safari, isStandalone = False\<rparr>
            else \<lparr>detected = P_ios_other, isStandalone = False\<rparr>)
         else \<lparr>detected = P_native, isStandalone = False\<rparr>)"

section \<open>Install advisor: the component and its session\<close>

subsection \<open>Numbers in local storage\<close>

text \<open>
  \<open>Date.now().toString()\<close> and \<open>parseInt\<close>. Numbers are mathematical integers here; a
  JavaScript number is exact up to \<open>2^53\<close>, far beyond any epoch time in milliseconds.
  \<open>parseInt\<close> skips leading white space, reads a sign, takes the prefix \<open>0x\<close> for
  base 16, and reads the longest run of digits; with no digit the result is \<open>NaN\<close>,
  here \<open>None\<close>.

  White space is what ECMAScript trims: tab, line feed, vertical tab, form feed,
  carriage return, space, U+00A0, U+1680, U+2000 to U+200A, U+2028, U+2029, U+202F,
  U+205F, U+3000 and U+FEFF. A text is held as its UTF-8 bytes, so the characters
  beyond ASCII are sequences of two or three bytes.
\<close>

fun digits10 :: "nat \<Rightarrow> string" where
  "digits10 n =
     (if n < 10 then [char_of (48 + n)]
      else digits10 (n div 10) @ [char_of (48 + n mod 10)])"

definition toString :: "int \<Rightarrow> string" where
  "toString n = (if n < 0 then CHR ''-'' # digits10 (nat (- n)) else digits10 (nat n))"

definition is_space1 :: "char \<Rightarrow> bool" where
  "is_space1 c = (c \<in> set [CHR 0x09, CHR 0x0A, CHR 0x0B, CHR 0x0C, CHR 0x0D, CHR '' ''])"

definition is_space2 :: "char \<Rightarrow> char \<Rightarrow> bool" where
  "is_space2 c1 c2 = (c1 = CHR 0xC2 \<and> c2 = CHR 0xA0)"

definition is_space3 :: "char \<Rightarrow> char \<Rightarrow> char \<Rightarrow> bool" where
  "is_space3 c1 c2 c3 =
     ([c1, c2, c3] \<in> set
        [[CHR 0xE1, CHR 0x9A, CHR 0x80],
         [CHR 0xE2, CHR 0x80, CHR 0x80], [CHR 0xE2, CHR 0x80, CHR 0x81],
         [CHR 0xE2, CHR 0x80, CHR 0x82], [CHR 0xE2, CHR 0x80, CHR 0x83],
         [CHR 0xE2, CHR 0x80, CHR 0x84], [CHR 0xE2, CHR 0x80, CHR 0x85],
         [CHR 0xE2, CHR 0x80, CHR 0x86], [CHR 0xE2, CHR 0x80, CHR 0x87],
         [CHR 0xE2, CHR 0x80, CHR 0x88], [CHR 0xE2, CHR 0x80, CHR 0x89],
         [CHR 0xE2, CHR 0x80, CHR 0x8A],
         [CHR 0xE2, CHR 0x80, CHR 0xA8], [CHR 0xE2, CHR 0x80, CHR 0xA9],
         [CHR 0xE2, CHR 0x80, CHR 0xAF],
         [CHR 0xE2, CHR 0x81, CHR 0x9F],
         [CHR 0xE3, CHR 0x80, CHR 0x80],
         [CHR 0xEF, CHR 0xBB, CHR 0xBF]])"

fun skip_space :: "string \<Rightarrow> string" where
  "skip_space (c1 # c2 # c3 # cs) =
     (if is_space1 c1 then skip_space (c2 # c3 # cs)
      else if is_space2 c1 c2 then skip_space (c3 # cs)
      else if is_space3 c1 c2 c3 then skip_space cs
      else c1 # c2 # c3 # cs)"
| "skip_space [c1, c2] =
     (if is_space1 c1 then skip_space [c2]
      else if is_space2 c1 c2 then []
      else [c1, c2])"
| "skip_space [c1] = (if is_space1 c1 then [] else [c1])"
| "skip_space [] = []"

definition digit_of :: "nat \<Rightarrow> char \<Rightarrow> nat option" where
  "digit_of r c =
     (let n = (of_char c :: nat);
          v = (if 48 \<le> n \<and> n \<le> 57 then Some (n - 48)
               else if 97 \<le> n \<and> n \<le> 122 then Some (n - 87)
               else if 65 \<le> n \<and> n \<le> 90 then Some (n - 55)
               else None)
      in case v of None \<Rightarrow> None | Some d \<Rightarrow> if d < r then Some d else None)"

definition parse_digits :: "nat \<Rightarrow> string \<Rightarrow> nat option" where
  "parse_digits r s =
     (let ds = takeWhile (\<lambda>c. digit_of r c \<noteq> None) s
      in if ds = [] then None
         else Some (foldl (\<lambda>a c. r * a + the (digit_of r c)) 0 ds))"

definition parseInt :: "string \<Rightarrow> int option" where
  "parseInt s =
     (let s1 = skip_space s;
          neg = starts_with ''-'' s1;
          s2 = (if starts_with ''-'' s1 \<or> starts_with ''+'' s1 then tl s1 else s1);
          hex = (starts_with ''0x'' s2 \<or> starts_with ''0X'' s2);
          mag = (if hex then parse_digits 16 (drop 2 s2) else parse_digits 10 s2)
      in case mag of None \<Rightarrow> None
         | Some n \<Rightarrow> Some (if neg then - int n else int n))"

subsection \<open>The world of one mounted component\<close>

type_synonym handle = nat

datatype outcome = Accepted | Dismissed

datatype evname = BeforeInstallPrompt | AppInstalled

text \<open>
  The closures the component hands to the browser: \<open>L_handler\<close> is \<open>handler\<close>,
  \<open>L_installed\<close> the anonymous listener of \<open>appinstalled\<close>; \<open>T_show\<close> is
  \<open>() => setVisible(true)\<close> and \<open>T_fallback\<close> the body of the fallback timeout.
\<close>

datatype listener = L_handler | L_installed

datatype timeout_cb = T_show | T_fallback

record timer =
  timer_id :: nat
  due :: int
  callback :: timeout_cb

text \<open>What the component asks of the browser, and what the browser runs, in order.\<close>

datatype action =
    Call_detectPlatform
  | Call_getItem string
  | Call_dateNow
  | Call_setItem string string
  | Call_addEventListener evname listener
  | Call_removeEventListener evname listener
  | Call_setTimeout timeout_cb nat
  | Call_clearTimeout nat
  | Run_listener listener
  | Run_timeout timeout_cb

text \<open>
  The React state (\<open>deferredPrompt\<close>, \<open>visible\<close>, \<open>promptType\<close>), the variables of the
  effect's closure (\<open>nativeFired\<close>, \<open>fallbackTimer\<close>, and whether the effect returned
  its cleanup function), and the browser around them: clock, local storage, registered
  listeners, pending timers. One clock, in milliseconds, serves \<open>Date.now()\<close> and the
  timers. \<open>choicePending\<close> holds while \<open>handleInstall\<close> awaits the user's choice.
\<close>

record world =
  env :: environment
  now :: int
  localStorage :: "string \<rightharpoonup> string"
  deferredPrompt :: "handle option"
  visible :: bool
  promptType :: PromptType
  nativeFired :: bool
  fallbackTimer :: "nat option"
  hasCleanup :: bool
  listeners :: "(evname \<times> listener) list"
  timers :: "timer list"
  nextTimer :: nat
  mounted :: bool
  choicePending :: bool
  trace :: "action list"

definition DISMISS_KEY :: string where
  "DISMISS_KEY = ''pwa-install-dismissed''"

definition init_world :: "environment \<Rightarrow> (string \<rightharpoonup> string) \<Rightarrow> int \<Rightarrow> world" where
  "init_world e store t0 =
     \<lparr>env = e, now = t0, localStorage = store, deferredPrompt = None, visible = False,
      promptType = P_none, nativeFired = False, fallbackTimer = None, hasCleanup = False,
      listeners = [], timers = [], nextTimer = 1, mounted = True, choicePending = False,
      trace = []\<rparr>"

definition log :: "action \<Rightarrow> world \<Rightarrow> world" where
  "log a w = w\<lparr>trace := trace w @ [a]\<rparr>"

text \<open>A state setter of a component that is no longer mounted does nothing.\<close>

definition setVisible :: "bool \<Rightarrow> world \<Rightarrow> world" where
  "setVisible b w = (if mounted w then w\<lparr>visible := b\<rparr> else w)"

definition setPromptType :: "PromptType \<Rightarrow> world \<Rightarrow> world" where
  "setPromptType p w = (if mounted w then w\<lparr>promptType := p\<rparr> else w)"

definition setDeferredPrompt :: "handle option \<Rightarrow> world \<Rightarrow> world" where
  "setDeferredPrompt h w = (if mounted w then w\<lparr>deferredPrompt := h\<rparr> else w)"

definition setTimeout :: "timeout_cb \<Rightarrow> nat \<Rightarrow> world \<Rightarrow> nat \<times> world" where
  "setTimeout cb delay w =
     (let i = nextTimer w
      in (i, log (Call_setTimeout cb delay)
               (w\<lparr>timers := timers w @ [\<lparr>timer_id = i, due = now w + int delay, callback = cb\<rparr>],
                  nextTimer := Suc i\<rparr>)))"

definition clearTimeout :: "nat \<Rightarrow> world \<Rightarrow> world" where
  "clearTimeout i w =
     log (Call_clearTimeout i) (w\<lparr>timers := filter (\<lambda>tm. timer_id tm \<noteq> i) (timers w)\<rparr>)"

definition addEventListener :: "evname \<Rightarrow> listener \<Rightarrow> world \<Rightarrow> world" where
  "addEventListener n l w =
     log (Call_addEventListener n l) (w\<lparr>listeners := listeners w @ [(n, l)]\<rparr>)"

definition removeEventListener :: "evname \<Rightarrow> listener \<Rightarrow> world \<Rightarrow> world" where
  "removeEventListener n l w =
     log (Call_removeEventListener n l)
       (w\<lparr>listeners := filter (\<lambda>x. x \<noteq> (n, l)) (listeners w)\<rparr>)"

subsection \<open>The effect run at mount\<close>

text \<open>
  \<open>dismissedAt && Date.now() - parseInt(dismissedAt) < 24 * 60 * 60 * 1000\<close>: the
  clock is read only when the stored string is truthy, and a comparison with \<open>NaN\<close>
  is false.
\<close>

definition cooldown :: "string option \<Rightarrow> int \<Rightarrow> bool" where
  "cooldown dismissedAt clock =
     (case dismissedAt of
        None \<Rightarrow> False
      | Some s \<Rightarrow> s \<noteq> [] \<and>
          (case parseInt s of None \<Rightarrow> False
           | Some ts \<Rightarrow> clock - ts < 24 * 60 * 60 * 1000))"

definition isAndroid :: "string \<Rightarrow> bool" where
  "isAndroid ua = re_test_i [''Android''] ua"

definition mountEffect :: "world \<Rightarrow> world" where
  "mountEffect w0 =
     (let d = detectPlatform (env w0);
          w1 = log Call_detectPlatform w0
      in if isStandalone d then w1
         else
           let dismissedAt = localStorage w1 DISMISS_KEY;
               w2 = log (Call_getItem DISMISS_KEY) w1;
               w3 = (if dismissedAt \<noteq> None \<and> dismissedAt \<noteq> Some [] then log Call_dateNow w2 else w2)
           in if cooldown dismissedAt (now w3) then w3
              else if detected d = P_wechat \<or> detected d = P_ios_safari
                      \<or> detected d = P_ios_other
              then snd (setTimeout T_show 2500 (setPromptType (detected d) w3))
              else
                let w4 = w3\<lparr>nativeFired := False\<rparr>;
                    w5 = addEventListener BeforeInstallPrompt L_handler w4;
                    w6 = addEventListener AppInstalled L_installed w5;
                    w7 = (if isAndroid (userAgent (env w6))
                          then (let (i, w) = setTimeout T_fallback 3500 w6
                                in w\<lparr>fallbackTimer := Some i\<rparr>)
                          else w6\<lparr>fallbackTimer := None\<rparr>)
                in w7\<lparr>hasCleanup := True\<rparr>)"

text \<open>The cleanup function the effect returns on its last path, and only there.\<close>

definition cleanup :: "world \<Rightarrow> world" where
  "cleanup w =
     (let w1 = removeEventListener BeforeInstallPrompt L_handler w
      in case fallbackTimer w1 of None \<Rightarrow> w1 | Some i \<Rightarrow> clearTimeout i w1)"

subsection \<open>Listeners, timeouts and the two buttons\<close>

definition handler :: "handle \<Rightarrow> world \<Rightarrow> world" where
  "handler e w =
     (let w1 = w\<lparr>nativeFired := True\<rparr>;
          w2 = setDeferredPrompt (Some e) w1;
          w3 = setPromptType P_native w2
      in snd (setTimeout T_show 1500 w3))"

definition installed :: "world \<Rightarrow> world" where
  "installed w = setPromptType P_none (setDeferredPrompt None (setVisible False w))"

fun run_timeout :: "timeout_cb \<Rightarrow> world \<Rightarrow> world" where
  "run_timeout T_show w = setVisible True w"
| "run_timeout T_fallback w =
     (if \<not> nativeFired w then setVisible True (setPromptType P_android_fallback w) else w)"

text \<open>
  \<open>if (!visible || promptType === 'none') return null\<close>, then one card for each of the
  five other values; a component that is not mounted shows nothing.
\<close>

definition render :: "world \<Rightarrow> PromptType option" where
  "render w =
     (if \<not> mounted w then None
      else if \<not> visible w \<or> promptType w = P_none then None
      else Some (promptType w))"

definition handleDismiss :: "world \<Rightarrow> world" where
  "handleDismiss w =
     (let w1 = setVisible False w;
          w2 = log Call_dateNow w1;
          v = toString (now w2)
      in log (Call_setItem DISMISS_KEY v)
           (w2\<lparr>localStorage := (localStorage w2)(DISMISS_KEY \<mapsto> v)\<rparr>))"

text \<open>
  \<open>handleInstall\<close> in two halves: up to the call of \<open>prompt()\<close>, and from the user's
  choice on. A second call while the first one waits fails inside \<open>prompt()\<close> and
  changes nothing.
\<close>

definition handleInstall_begin :: "world \<Rightarrow> world" where
  "handleInstall_begin w =
     (case deferredPrompt w of
        None \<Rightarrow> w
      | Some h \<Rightarrow> if choicePending w then w else w\<lparr>choicePending := True\<rparr>)"

definition handleInstall_resume :: "outcome \<Rightarrow> world \<Rightarrow> world" where
  "handleInstall_resume oc w =
     (let w1 = (if oc = Accepted then setPromptType P_none w else w);
          w2 = setVisible False w1;
          w3 = setDeferredPrompt None w2
      in w3\<lparr>choicePending := False\<rparr>)"

subsection \<open>Events of a session\<close>

text \<open>
  Time passes in \<open>Advance\<close> steps of so many milliseconds; the timers that fall due are
  run in the order of their due times, earlier registrations first.
\<close>

datatype event =
    Fire_beforeinstallprompt handle
  | Fire_appinstalled
  | Advance nat
  | Click_install
  | Choice outcome
  | Click_dismiss
  | Unmount

fun fire_all :: "timer list \<Rightarrow> world \<Rightarrow> world" where
  "fire_all [] w = w"
| "fire_all (tm # tms) w =
     fire_all tms
       (run_timeout (callback tm)
          (log (Run_timeout (callback tm))
             (w\<lparr>now := due tm, timers := filter (\<lambda>x. timer_id x \<noteq> timer_id tm) (timers w)\<rparr>)))"

definition advance :: "nat \<Rightarrow> world \<Rightarrow> world" where
  "advance d w =
     (let t1 = now w + int d;
          ready = sort_key due (filter (\<lambda>tm. due tm \<le> t1) (timers w))
      in (fire_all ready w)\<lparr>now := t1\<rparr>)"

fun step :: "event \<Rightarrow> world \<Rightarrow> world" where
  "step (Fire_beforeinstallprompt e) w =
     (if (BeforeInstallPrompt, L_handler) \<in> set (listeners w)
      then handler e (log (Run_listener L_handler) w) else w)"
| "step Fire_appinstalled w =
     (if (AppInstalled, L_installed) \<in> set (listeners w)
      then installed (log (Run_listener L_installed) w) else w)"
| "step (Advance d) w = advance d w"
| "step Click_install w =
     (if render w = Some P_native then handleInstall_begin w else w)"
| "step (Choice oc) w = (if choicePending w then handleInstall_resume oc w else w)"
| "step Click_dismiss w = (if render w \<noteq> None then handleDismiss w else w)"
| "step Unmount w =
     (if mounted w then (if hasCleanup w then cleanup w else w)\<lparr>mounted := False\<rparr> else w)"

fun run :: "event list \<Rightarrow> world \<Rightarrow> world" where
  "run [] w = w"
| "run (ev # evs) w = run evs (step ev w)"

definition session :: "environment \<Rightarrow> (string \<rightharpoonup> string) \<Rightarrow> int \<Rightarrow> event list \<Rightarrow> world" where
  "session e store t0 evs = run evs (mountEffect (init_world e store t0))"


subsection \<open>The single-card component\<close>

text \<open>
  The file holds a second component of the same name, the first one in it: one card, no
  platform classification and no dismissal record. Its state is \<open>deferredPrompt\<close>,
  \<open>showPrompt\<close> and \<open>isInstalled\<close>; every timeout it sets is
  \<open>() => setShowPrompt(true)\<close>, so a pending timer is its due time. Its functions
  carry the source's names with \<open>card\<close> added.
\<close>

record card =
  card_env :: environment
  card_now :: int
  card_storage :: "string \<rightharpoonup> string"
  card_deferredPrompt :: "handle option"
  showPrompt :: bool
  isInstalled_card :: bool
  card_listeners :: "(evname \<times> listener) list"
  card_timers :: "int list"
  card_hasCleanup :: bool
  card_mounted :: bool
  card_choicePending :: bool

definition init_card :: "environment \<Rightarrow> (string \<rightharpoonup> string) \<Rightarrow> int \<Rightarrow> card" where
  "init_card e store t0 =
     \<lparr>card_env = e, card_now = t0, card_storage = store, card_deferredPrompt = None,
      showPrompt = False, isInstalled_card = False, card_listeners = [], card_timers = [],
      card_hasCleanup = False, card_mounted = True, card_choicePending = False\<rparr>"

definition setShowPrompt :: "bool \<Rightarrow> card \<Rightarrow> card" where
  "setShowPrompt b c = (if card_mounted c then c\<lparr>showPrompt := b\<rparr> else c)"

definition setIsInstalled :: "bool \<Rightarrow> card \<Rightarrow> card" where
  "setIsInstalled b c = (if card_mounted c then c\<lparr>isInstalled_card := b\<rparr> else c)"

definition setDeferredPrompt_card :: "handle option \<Rightarrow> card \<Rightarrow> card" where
  "setDeferredPrompt_card h c = (if card_mounted c then c\<lparr>card_deferredPrompt := h\<rparr> else c)"

definition mountEffect_card :: "card \<Rightarrow> card" where
  "mountEffect_card c =
     (if displayModeStandalone (card_env c) then setIsInstalled True c
      else c\<lparr>card_listeners := card_listeners c
                 @ [(BeforeInstallPrompt, L_handler), (AppInstalled, L_installed)],
             card_hasCleanup := True\<rparr>)"

definition cleanup_card :: "card \<Rightarrow> card" where
  "cleanup_card c =
     c\<lparr>card_listeners := filter (\<lambda>x. x \<noteq> (BeforeInstallPrompt, L_handler)) (card_listeners c)\<rparr>"

definition handler_card :: "handle \<Rightarrow> card \<Rightarrow> card" where
  "handler_card e c =
     (let c1 = setDeferredPrompt_card (Some e) c
      in c1\<lparr>card_timers := card_timers c1 @ [card_now c1 + 2000]\<rparr>)"

definition installed_card :: "card \<Rightarrow> card" where
  "installed_card c = setDeferredPrompt_card None (setShowPrompt False (setIsInstalled True c))"

definition handleInstall_card_begin :: "card \<Rightarrow> card" where
  "handleInstall_card_begin c =
     (case card_deferredPrompt c of
        None \<Rightarrow> c
      | Some h \<Rightarrow> if card_choicePending c then c else c\<lparr>card_choicePending := True\<rparr>)"

definition handleInstall_card_resume :: "outcome \<Rightarrow> card \<Rightarrow> card" where
  "handleInstall_card_resume oc c =
     (let c1 = (if oc = Accepted then setIsInstalled True c else c);
          c2 = setShowPrompt False c1;
          c3 = setDeferredPrompt_card None c2
      in c3\<lparr>card_choicePending := False\<rparr>)"

definition handleDismiss_card :: "card \<Rightarrow> card" where
  "handleDismiss_card c = setShowPrompt False c"

text \<open>\<open>if (!showPrompt || isInstalled) return null\<close>, and the card otherwise.\<close>

definition render_card :: "card \<Rightarrow> bool" where
  "render_card c = (card_mounted c \<and> showPrompt c \<and> \<not> isInstalled_card c)"

definition advance_card :: "nat \<Rightarrow> card \<Rightarrow> card" where
  "advance_card d c =
     (let t1 = card_now c + int d;
          c1 = (if list_ex (\<lambda>x. x \<le> t1) (card_timers c) then setShowPrompt True c else c)
      in c1\<lparr>card_now := t1, card_timers := filter (\<lambda>x. t1 < x) (card_timers c1)\<rparr>)"

fun step_card :: "event \<Rightarrow> card \<Rightarrow> card" where
  "step_card (Fire_beforeinstallprompt e) c =
     (if (BeforeInstallPrompt, L_handler) \<in> set (card_listeners c) then handler_card e c else c)"
| "step_card Fire_appinstalled c =
     (if (AppInstalled, L_installed) \<in> set (card_listeners c) then installed_card c else c)"
| "step_card (Advance d) c = advance_card d c"
| "step_card Click_install c = (if render_card c then handleInstall_card_begin c else c)"
| "step_card (Choice oc) c =
     (if card_choicePending c then handleInstall_card_resume oc c else c)"
| "step_card Click_dismiss c = (if render_card c then handleDismiss_card c else c)"
| "step_card Unmount c =
     (if card_mounted c
      then (if card_hasCleanup c then cleanup_card c else c)\<lparr>card_mounted := False\<rparr>
      else c)"

fun run_card :: "event list \<Rightarrow> card \<Rightarrow> card" where
  "run_card [] c = c"
| "run_card (ev # evs) c = run_card evs (step_card ev c)"

definition session_card ::
  "environment \<Rightarrow> (string \<rightharpoonup> string) \<Rightarrow> int \<Rightarrow> event list \<Rightarrow> card" where
  "session_card e store t0 evs = run_card evs (mountEffect_card (init_card e store t0))"

text \<open>
  For statements about sessions: whether an event is the installation-availability
  signal, and the time a list of events lets pass.
\<close>

fun is_signal :: "event \<Rightarrow> bool" where
  "is_signal (Fire_beforeinstallprompt e) = True"
| "is_signal ev = False"

definition no_signal :: "event list \<Rightarrow> bool" where
  "no_signal evs = list_all (\<lambda>ev. \<not> is_signal ev) evs"

fun elapsed :: "event list \<Rightarrow> nat" where
  "elapsed [] = 0"
| "elapsed (Advance d # evs) = d + elapsed evs"
| "elapsed (ev # evs) = elapsed evs"

text \<open>A world in which nothing is shown and no timer is pending.\<close>

definition quiet :: "world \<Rightarrow> bool" where
  "quiet w = (\<not> visible w \<and> timers w = [])"

text \<open>
  A world in which the component, if mounted, has prompt type \<open>none\<close>, and in which
  no fallback timeout can change that: the availability signal has been seen, or no
  such timeout is pending.
\<close>

definition settled :: "world \<Rightarrow> bool" where
  "settled w =
     ((\<not> mounted w \<or> promptType w = P_none)
      \<and> (nativeFired w \<or> T_fallback \<notin> set (map callback (timers w))))"

text \<open>
  A mounted world that waits for the availability signal: nothing shown, the signal not
  seen, and the fallback timeout, due at \<open>D\<close>, the one pending timer.
\<close>

definition waiting :: "nat \<Rightarrow> int \<Rightarrow> world \<Rightarrow> bool" where
  "waiting i D w =
     (mounted w \<and> \<not> nativeFired w \<and> \<not> visible w \<and> now w < D
      \<and> timers w = [\<lparr>timer_id = i, due = D, callback = T_fallback\<rparr>])"

subsection \<open>Sample environments\<close>

definition browser :: "string \<Rightarrow> environment" where
  "browser ua =
     \<lparr>userAgent = ua, displayModeStandalone = False, navigatorStandalone = False,
      platform = [], maxTouchPoints = 0\<rparr>"

definition iphone_safari :: environment where
  "iphone_safari = browser ''iPhone; CPU iPhone OS 16_0 Version/16.0 Mobile/15E148 Safari/604.1''"

definition iphone_chrome :: environment where
  "iphone_chrome = browser ''iPhone; CPU iPhone OS 16_0 CriOS/116.0 Mobile/15E148 Safari/604.1''"

definition iphone_wechat :: environment where
  "iphone_wechat = browser ''iPhone; CPU iPhone OS 16_0 Mobile/15E148 MicroMessenger/8.0.40''"

definition android_chrome :: environment where
  "android_chrome = browser ''Linux; Android 13; Pixel 7 Chrome/116.0.0.0 Mobile Safari/537.36''"

definition desktop_chrome :: environment where
  "desktop_chrome = browser ''Windows NT 10.0; Win64; x64 Chrome/116.0.0.0 Safari/537.36''"

definition installed_app :: environment where
  "installed_app = iphone_safari\<lparr>navigatorStandalone := True\<rparr>"


section \<open>Properties of the localization store\<close>

lemma dictionary_entry: "\<exists>s. dictionary lang k = Some s \<and> s \<noteq> []"
  unfolding dictionary_def
  by (cases lang; cases k; simp add: en_def zh_def)

lemma or_else_present: "a \<noteq> [] \<Longrightarrow> or_else (Some a) b = a"
  by simp

lemma t_dictionary: "dictionary (language st) k = Some s \<Longrightarrow> t st k = s"
  using dictionary_entry [of "language st" k]
  by (auto simp: t_def t_in_def Let_def)

text \<open>
  C8. For every key, the lookup \<open>t\<close> returns the dictionary's entry for the active
  language, and the module's dictionary has one for every key and language. The
  fallback chain behind it, over any dictionary whose entries are not empty texts:
  the entry of the active language; when that is absent, the entry of \<open>en\<close>; when
  that is absent too, the key itself.
\<close>

theorem t_fallback_chain:
  "(\<exists>s. dictionary (language st) k = Some s \<and> t st k = s) \<and>
   (dict (language st) k \<noteq> Some [] \<longrightarrow> dict En k \<noteq> Some [] \<longrightarrow>
      t_in dict st k =
        (case dict (language st) k of
           Some s \<Rightarrow> s
         | None \<Rightarrow> (case dict En k of Some s \<Rightarrow> s | None \<Rightarrow> key_name k)))"
proof
  obtain s where "dictionary (language st) k = Some s"
    using dictionary_entry by blast
  then show "\<exists>s. dictionary (language st) k = Some s \<and> t st k = s"
    by (simp add: t_dictionary)
next
  show "dict (language st) k \<noteq> Some [] \<longrightarrow> dict En k \<noteq> Some [] \<longrightarrow>
      t_in dict st k =
        (case dict (language st) k of
           Some s \<Rightarrow> s
         | None \<Rightarrow> (case dict En k of Some s \<Rightarrow> s | None \<Rightarrow> key_name k))"
    by (auto simp: t_in_def Let_def split: option.splits)
qed

theorem t_fallback_chain_witness:
  "t \<lparr>language = Zh\<rparr> K_gems = [CHR 0xE5, CHR 0xAE, CHR 0x9D, CHR 0xE7, CHR 0x9F, CHR 0xB3] \<and>
   t_in ((dictionary)(Zh := Map.empty)) \<lparr>language = Zh\<rparr> K_gems = ''GEMS'' \<and>
   t_in (\<lambda>l. Map.empty) \<lparr>language = Zh\<rparr> K_gems = ''gems''"
proof (intro conjI)
  show "t \<lparr>language = Zh\<rparr> K_gems = [CHR 0xE5, CHR 0xAE, CHR 0x9D, CHR 0xE7, CHR 0x9F, CHR 0xB3]"
    using t_fallback_chain [of "\<lparr>language = Zh\<rparr>" K_gems dictionary]
    by (simp add: dictionary_def zh_def)
  show "t_in ((dictionary)(Zh := Map.empty)) \<lparr>language = Zh\<rparr> K_gems = ''GEMS''"
    using t_fallback_chain [of "\<lparr>language = Zh\<rparr>" K_gems "(dictionary)(Zh := Map.empty)"]
    by (simp add: dictionary_def en_def)
  show "t_in (\<lambda>l. Map.empty) \<lparr>language = Zh\<rparr> K_gems = ''gems''"
    using t_fallback_chain [of "\<lparr>language = Zh\<rparr>" K_gems "\<lambda>l. Map.empty"]
    by simp
qed

text \<open>
  C9. From a state whose active language is \<open>en\<close>, \<open>setLanguage('zh')\<close> followed by
  \<open>setLanguage('en')\<close> gives back the lookup result of every key.
\<close>

theorem setLanguage_round_trip:
  "language st = En \<Longrightarrow> t (setLanguage En (setLanguage Zh st)) k = t st k"
  by (simp add: setLanguage_def t_def t_in_def)

theorem setLanguage_round_trip_witness:
  "language initialState = En \<and>
   t (setLanguage Zh initialState) K_gems \<noteq> t initialState K_gems \<and>
   t (setLanguage En (setLanguage Zh initialState)) K_gems = t initialState K_gems"
  using setLanguage_round_trip [of initialState K_gems]
  by (simp add: initialState_def setLanguage_def t_def t_in_def dictionary_def en_def zh_def)

section \<open>Properties of the platform classifier\<close>

lemma starts_with_prefix: "starts_with p s \<longleftrightarrow> prefix p s"
  by (induction p s rule: starts_with.induct) auto

lemma occurs_in_sublist: "occurs_in p s \<longleftrightarrow> sublist p s"
  by (induction s) (auto simp: starts_with_prefix sublist_Cons_right)

lemma re_test_iff: "re_test ps s \<longleftrightarrow> (\<exists>p \<in> set ps. sublist p s)"
  by (induction ps) (auto simp: occurs_in_sublist)

text \<open>
  C1. The rules of \<open>detectPlatform\<close> in their order, the first match winning:
  standalone gives \<open>none\<close>; otherwise a user agent with one of the in-app signatures
  (\<open>MicroMessenger\<close>, \<open>QQ/\<close>, \<open>wxwork\<close>, \<open>DingTalk\<close>, \<open>Weibo\<close>, in any letter case)
  gives \<open>wechat\<close>, on iOS too; otherwise an iOS device with the token \<open>Safari\<close> and
  none of \<open>Chrome\<close>, \<open>CriOS\<close>, \<open>FxiOS\<close>, \<open>EdgiOS\<close>, \<open>OPiOS\<close> gives \<open>ios-safari\<close>;
  otherwise an iOS device gives \<open>ios-other\<close>; otherwise \<open>native\<close>.
\<close>

theorem detectPlatform_first_match:
  "(standalone e \<longrightarrow> detected (detectPlatform e) = P_none) \<and>
   (\<not> standalone e \<and> re_test_i inAppSignatures (userAgent e) \<longrightarrow>
      detected (detectPlatform e) = P_wechat) \<and>
   (\<not> standalone e \<and> \<not> re_test_i inAppSignatures (userAgent e) \<and> isIOS e
      \<and> re_test [''Safari''] (userAgent e) \<and> \<not> re_test otherBrowserTokens (userAgent e) \<longrightarrow>
      detected (detectPlatform e) = P_ios_safari) \<and>
   (\<not> standalone e \<and> \<not> re_test_i inAppSignatures (userAgent e) \<and> isIOS e
      \<and> \<not> (re_test [''Safari''] (userAgent e) \<and> \<not> re_test otherBrowserTokens (userAgent e)) \<longrightarrow>
      detected (detectPlatform e) = P_ios_other) \<and>
   (\<not> standalone e \<and> \<not> re_test_i inAppSignatures (userAgent e) \<and> \<not> isIOS e \<longrightarrow>
      detected (detectPlatform e) = P_native)"
  by (simp add: detectPlatform_def isInApp_def isSafari_def Let_def)

theorem detectPlatform_first_match_witness:
  "detected (detectPlatform installed_app) = P_none \<and>
   isIOS iphone_wechat \<and> detected (detectPlatform iphone_wechat) = P_wechat \<and>
   detected (detectPlatform iphone_safari) = P_ios_safari \<and>
   detected (detectPlatform iphone_chrome) = P_ios_other \<and>
   detected (detectPlatform android_chrome) = P_native"
proof (intro conjI)
  have "standalone installed_app"
    by code_simp
  then show "detected (detectPlatform installed_app) = P_none"
    using detectPlatform_first_match [of installed_app] by blast
  show "isIOS iphone_wechat"
    by code_simp
  have "\<not> standalone iphone_wechat \<and> re_test_i inAppSignatures (userAgent iphone_wechat)"
    by code_simp
  then show "detected (detectPlatform iphone_wechat) = P_wechat"
    using detectPlatform_first_match [of iphone_wechat] by blast
  have "\<not> standalone iphone_safari \<and> \<not> re_test_i inAppSignatures (userAgent iphone_safari)
      \<and> isIOS iphone_safari \<and> re_test [''Safari''] (userAgent iphone_safari)
      \<and> \<not> re_test otherBrowserTokens (userAgent iphone_safari)"
    by code_simp
  then show "detected (detectPlatform iphone_safari) = P_ios_safari"
    using detectPlatform_first_match [of iphone_safari] by blast
  have "\<not> standalone iphone_chrome \<and> \<not> re_test_i inAppSignatures (userAgent iphone_chrome)
      \<and> isIOS iphone_chrome
      \<and> \<not> (re_test [''Safari''] (userAgent iphone_chrome)
           \<and> \<not> re_test otherBrowserTokens (userAgent iphone_chrome))"
    by code_simp
  then show "detected (detectPlatform iphone_chrome) = P_ios_other"
    using detectPlatform_first_match [of iphone_chrome] by blast
  have "\<not> standalone android_chrome \<and> \<not> re_test_i inAppSignatures (userAgent android_chrome)
      \<and> \<not> isIOS android_chrome"
    by code_simp
  then show "detected (detectPlatform android_chrome) = P_native"
    using detectPlatform_first_match [of android_chrome] by blast
qed

text \<open>
  C10. \<open>detectPlatform\<close> returns \<open>none\<close> exactly when it returns \<open>isStandalone\<close> true,
  which is exactly when the page runs standalone; every other environment gets one of
  the five other values of \<open>PromptType\<close>.
\<close>

theorem detectPlatform_none_iff_standalone:
  "(detected (detectPlatform e) = P_none \<longleftrightarrow> isStandalone (detectPlatform e)) \<and>
   (isStandalone (detectPlatform e) \<longleftrightarrow> standalone e) \<and>
   (\<not> isStandalone (detectPlatform e) \<longrightarrow>
      detected (detectPlatform e)
        \<in> {P_native, P_ios_safari, P_ios_other, P_wechat, P_android_fallback})"
  by (simp add: detectPlatform_def Let_def)

theorem detectPlatform_none_iff_standalone_witness:
  "\<not> isStandalone (detectPlatform android_chrome) \<and>
   detected (detectPlatform android_chrome) = P_native \<and>
   isStandalone (detectPlatform installed_app) \<and>
   detected (detectPlatform installed_app) = P_none"
proof -
  have a: "\<not> standalone android_chrome" and b: "standalone installed_app"
    by code_simp+
  have c: "detected (detectPlatform android_chrome) = P_native"
    by code_simp
  show ?thesis
    using detectPlatform_none_iff_standalone [of android_chrome]
      detectPlatform_none_iff_standalone [of installed_app] a b c
    by blast
qed

section \<open>Numbers in local storage: what is written can be read back\<close>

lemma digit_of_char: "d < 10 \<Longrightarrow> digit_of 10 (char_of (48 + d)) = Some d"
  by (simp add: digit_of_def Let_def)

lemma digit_head:
  "digit_of 10 c = Some d \<Longrightarrow>
     skip_space (c # cs) = c # cs
     \<and> \<not> starts_with ''-'' (c # cs) \<and> \<not> starts_with ''+'' (c # cs)"
proof -
  assume "digit_of 10 c = Some d"
  then have n: "48 \<le> (of_char c :: nat) \<and> (of_char c :: nat) \<le> 57"
    by (auto simp: digit_of_def Let_def split: if_splits)
  then have a: "\<not> is_space1 c" and b: "\<And>c2. \<not> is_space2 c c2"
    and c: "\<And>c2 c3. \<not> is_space3 c c2 c3"
    by (auto simp: is_space1_def is_space2_def is_space3_def)
  have "skip_space (c # cs) = c # cs"
  proof (cases cs)
    case Nil
    then show ?thesis using a by simp
  next
    case (Cons c2 cs2)
    then show ?thesis
      using a b c by (cases cs2) simp_all
  qed
  moreover have "c \<noteq> CHR ''-'' \<and> c \<noteq> CHR ''+''"
    using n by auto
  ultimately show ?thesis
    by auto
qed

lemma digit_second:
  "digit_of 10 c' = Some d \<Longrightarrow>
     \<not> starts_with ''0x'' (c # c' # cs) \<and> \<not> starts_with ''0X'' (c # c' # cs)"
  by (auto simp: digit_of_def Let_def split: if_splits)

declare digits10.simps [simp del]

lemma digits10_digits: "c \<in> set (digits10 n) \<Longrightarrow> \<exists>d. digit_of 10 c = Some d"
proof (induction n arbitrary: c rule: digits10.induct)
  case (1 n)
  show ?case
  proof (cases "n < 10")
    case True
    with "1.prems" show ?thesis
      by (simp add: digits10.simps [of n] digit_of_char)
  next
    case False
    with "1.prems" "1.IH" show ?thesis
      by (auto simp: digits10.simps [of n] digit_of_char)
  qed
qed

lemma digits10_nonempty: "digits10 n \<noteq> []"
  by (simp add: digits10.simps [of n])

lemma digits10_value: "foldl (\<lambda>a c. 10 * a + the (digit_of 10 c)) 0 (digits10 n) = n"
proof (induction n rule: digits10.induct)
  case (1 n)
  show ?case
  proof (cases "n < 10")
    case True
    then show ?thesis
      by (simp add: digits10.simps [of n] digit_of_char)
  next
    case False
    with "1.IH" show ?thesis
      by (simp add: digits10.simps [of n] digit_of_char)
  qed
qed

lemma parse_digits10: "parse_digits 10 (digits10 n) = Some n"
proof -
  have tw: "takeWhile (\<lambda>c. digit_of 10 c \<noteq> None) (digits10 n) = digits10 n"
    using digits10_digits [of _ n] by fastforce
  show ?thesis
    unfolding parse_digits_def tw Let_def
    by (simp add: digits10_nonempty digits10_value)
qed

lemma digits10_no_hex:
  "\<not> starts_with ''0x'' (digits10 n) \<and> \<not> starts_with ''0X'' (digits10 n)"
proof (cases "digits10 n")
  case Nil
  then show ?thesis by simp
next
  case (Cons c cs)
  show ?thesis
  proof (cases cs)
    case Nil
    with Cons show ?thesis by simp
  next
    case (Cons c' cs')
    then obtain d where "digit_of 10 c' = Some d"
      using digits10_digits [of c' n] \<open>digits10 n = c # cs\<close> by auto
    then show ?thesis
      using digit_second [of c' d c cs'] Cons \<open>digits10 n = c # cs\<close> by simp
  qed
qed

lemma digits10_head:
  "\<not> starts_with ''-'' (digits10 n) \<and> \<not> starts_with ''+'' (digits10 n)
   \<and> skip_space (digits10 n) = digits10 n"
proof -
  obtain c cs where s: "digits10 n = c # cs"
    using digits10_nonempty [of n] by (cases "digits10 n") auto
  then obtain d where "digit_of 10 c = Some d"
    using digits10_digits [of c n] by auto
  then show ?thesis
    using digit_head [of c d cs] by (simp add: s del: starts_with.simps)
qed

lemma parseInt_digits10: "parseInt (digits10 n) = Some (int n)"
  unfolding parseInt_def Let_def
  by (simp add: digits10_head digits10_no_hex parse_digits10 del: starts_with.simps)

lemma parseInt_minus_digits10: "parseInt (CHR ''-'' # digits10 n) = Some (- int n)"
proof -
  have "skip_space (CHR ''-'' # digits10 n) = CHR ''-'' # digits10 n"
  proof (cases "digits10 n")
    case Nil
    then show ?thesis by (simp add: is_space1_def)
  next
    case (Cons c cs)
    then show ?thesis
      by (cases cs) (simp_all add: is_space1_def is_space2_def is_space3_def)
  qed
  moreover have "starts_with ''-'' (CHR ''-'' # digits10 n)"
    by simp
  ultimately show ?thesis
    unfolding parseInt_def Let_def
    by (simp add: digits10_no_hex parse_digits10 del: starts_with.simps)
qed

lemma parseInt_toString: "parseInt (toString n) = Some n"
  by (simp add: toString_def parseInt_digits10 parseInt_minus_digits10)

text \<open>
  White space beyond ASCII is skipped as well: U+00A0 before the digits, and a byte
  order mark, a tab and a line separator before a signed hexadecimal number.
\<close>

lemma parseInt_unicode_space:
  "parseInt ([CHR 0xC2, CHR 0xA0] @ ''1000'') = Some 1000 \<and>
   parseInt ([CHR 0xEF, CHR 0xBB, CHR 0xBF, CHR 0x09, CHR 0xE2, CHR 0x80, CHR 0xA8] @ ''-0x1f'')
     = Some (- 31) \<and>
   cooldown (Some ([CHR 0xC2, CHR 0xA0] @ ''1000'')) 3601000"
  by code_simp

lemma parseInt_empty: "parseInt [] = None"
  by (simp add: parseInt_def parse_digits_def)

lemma cooldown_stored:
  "parseInt s = Some ts \<Longrightarrow> cooldown (Some s) clock \<longleftrightarrow> clock - ts < 24 * 60 * 60 * 1000"
  by (auto simp: cooldown_def parseInt_empty)

section \<open>Properties of the install advisor\<close>

lemmas browser_defs =
  log_def setVisible_def setPromptType_def setDeferredPrompt_def setTimeout_def
  clearTimeout_def addEventListener_def removeEventListener_def

lemmas component_defs =
  handler_def installed_def handleDismiss_def handleInstall_begin_def
  handleInstall_resume_def cleanup_def render_def

subsection \<open>The effect on its early returns\<close>

lemma isStandalone_detect: "isStandalone (detectPlatform e) = standalone e"
  by (simp add: detectPlatform_def Let_def)

lemma mountEffect_standalone:
  "standalone e \<Longrightarrow>
     mountEffect (init_world e store t0) = (init_world e store t0)\<lparr>trace := [Call_detectPlatform]\<rparr>"
  by (simp add: mountEffect_def detectPlatform_def init_world_def log_def Let_def)

lemma mountEffect_cooldown:
  assumes "\<not> standalone e" and "store DISMISS_KEY = Some s" and "parseInt s = Some ts"
    and "t0 - ts < 24 * 60 * 60 * 1000"
  shows "mountEffect (init_world e store t0) =
     (init_world e store t0)\<lparr>trace := [Call_detectPlatform, Call_getItem DISMISS_KEY, Call_dateNow]\<rparr>"
proof -
  have "s \<noteq> []"
    using assms(3) parseInt_empty by auto
  moreover have "cooldown (Some s) t0"
    using assms(3,4) by (simp add: cooldown_stored)
  ultimately show ?thesis
    using assms(1,2)
    by (simp add: mountEffect_def isStandalone_detect init_world_def log_def Let_def)
qed

lemma mountEffect_suppressed:
  assumes "store DISMISS_KEY = Some s" and "parseInt s = Some ts"
    and "t0 - ts < 24 * 60 * 60 * 1000"
  shows "quiet (mountEffect (init_world e store t0))
     \<and> listeners (mountEffect (init_world e store t0)) = []"
proof (cases "standalone e")
  case True
  then have "mountEffect (init_world e store t0) =
      (init_world e store t0)\<lparr>trace := [Call_detectPlatform]\<rparr>"
    by (rule mountEffect_standalone)
  then show ?thesis
    by (simp add: quiet_def init_world_def)
next
  case False
  then have "mountEffect (init_world e store t0) = (init_world e store t0)
      \<lparr>trace := [Call_detectPlatform, Call_getItem DISMISS_KEY, Call_dateNow]\<rparr>"
    using assms by (rule mountEffect_cooldown)
  then show ?thesis
    by (simp add: quiet_def init_world_def)
qed

subsection \<open>A quiet world stays quiet\<close>

lemma quiet_render: "quiet w \<Longrightarrow> render w = None"
  by (simp add: quiet_def render_def)

lemma step_quiet:
  assumes "quiet w" and "is_signal ev \<longrightarrow> (BeforeInstallPrompt, L_handler) \<notin> set (listeners w)"
  shows "quiet (step ev w) \<and> set (listeners (step ev w)) \<subseteq> set (listeners w)"
  using assms
  by (cases ev)
     (auto simp: quiet_def advance_def browser_defs component_defs Let_def split: option.splits)

lemma run_quiet_unregistered:
  "quiet w \<Longrightarrow> (BeforeInstallPrompt, L_handler) \<notin> set (listeners w) \<Longrightarrow> quiet (run evs w)"
proof (induction evs arbitrary: w)
  case Nil
  then show ?case by simp
next
  case (Cons ev evs)
  have "quiet (step ev w) \<and> set (listeners (step ev w)) \<subseteq> set (listeners w)"
    using Cons.prems by (intro step_quiet) auto
  with Cons show ?case by auto
qed

lemma run_quiet_no_signal:
  "quiet w \<Longrightarrow> no_signal evs \<Longrightarrow> quiet (run evs w)"
proof (induction evs arbitrary: w)
  case Nil
  then show ?case by simp
next
  case (Cons ev evs)
  have "quiet (step ev w)"
    using Cons.prems step_quiet [of w ev] by (simp add: no_signal_def)
  with Cons show ?case by (simp add: no_signal_def)
qed

lemma session_suppressed:
  assumes "store DISMISS_KEY = Some s" and "parseInt s = Some ts"
    and "t0 - ts < 24 * 60 * 60 * 1000"
  shows "render (session e store t0 evs) = None"
proof -
  have "quiet (run evs (mountEffect (init_world e store t0)))"
    using mountEffect_suppressed [of store s ts t0 e] assms
    by (simp add: run_quiet_unregistered)
  then show ?thesis
    by (simp add: session_def quiet_render)
qed

text \<open>
  C2. In a session that finds a dismissal timestamp less than 24 hours old, no
  guidance is rendered, whatever the environment, whatever happens afterwards and
  however much time passes.
\<close>

theorem cooldown_suppresses_session:
  assumes "store DISMISS_KEY = Some s" and "parseInt s = Some ts"
    and "t0 - ts < 24 * 60 * 60 * 1000"
  shows "render (session e store t0 evs) = None"
  using session_suppressed [of store s ts t0 e evs] assms by simp

theorem cooldown_suppresses_session_witness:
  "parseInt ''1000'' = Some 1000 \<and>
   render (session iphone_safari [DISMISS_KEY \<mapsto> ''1000''] 3601000
             [Advance 2500, Fire_beforeinstallprompt 1, Advance 5000]) = None \<and>
   render (session iphone_safari Map.empty 3601000 [Advance 2500]) = Some P_ios_safari"
proof (intro conjI)
  show p: "parseInt ''1000'' = Some 1000"
    by code_simp
  show "render (session iphone_safari [DISMISS_KEY \<mapsto> ''1000''] 3601000
             [Advance 2500, Fire_beforeinstallprompt 1, Advance 5000]) = None"
    using cooldown_suppresses_session [of "[DISMISS_KEY \<mapsto> ''1000'']" "''1000''" 1000 3601000] p
    by simp
  show "render (session iphone_safari Map.empty 3601000 [Advance 2500]) = Some P_ios_safari"
    by code_simp
qed

text \<open>
  C3, as the code has it. When a dismissal timestamp less than 24 hours old exists at
  mount, the effect first calls \<open>detectPlatform\<close>; on a standalone page it stops there,
  otherwise it reads the dismissal record and the clock and stops. Nothing else
  happens: no state is set, no listener and no timer is registered.
\<close>

theorem cooldown_after_classification:
  assumes "store DISMISS_KEY = Some s" and "parseInt s = Some ts"
    and "t0 - ts < 24 * 60 * 60 * 1000"
  shows "mountEffect (init_world e store t0) =
     (init_world e store t0)
       \<lparr>trace := Call_detectPlatform #
          (if standalone e then [] else [Call_getItem DISMISS_KEY, Call_dateNow])\<rparr>"
proof (cases "standalone e")
  case True
  then show ?thesis
    using mountEffect_standalone [of e store t0] by simp
next
  case False
  then show ?thesis
    using mountEffect_cooldown [of e store s ts t0] assms by simp
qed

theorem cooldown_after_classification_witness:
  "parseInt ''1000'' = Some 1000 \<and>
   mountEffect (init_world android_chrome [DISMISS_KEY \<mapsto> ''1000''] 3601000) =
     (init_world android_chrome [DISMISS_KEY \<mapsto> ''1000''] 3601000)
       \<lparr>trace := [Call_detectPlatform, Call_getItem DISMISS_KEY, Call_dateNow]\<rparr>"
proof -
  have p: "parseInt ''1000'' = Some 1000"
    by code_simp
  have q: "\<not> standalone android_chrome"
    by code_simp
  show ?thesis
    using cooldown_after_classification
      [of "[DISMISS_KEY \<mapsto> ''1000'']" "''1000''" 1000 3601000 android_chrome] p q
    by simp
qed

text \<open>
  A session that shows the order: the dismissal is one hour old, and the trace of the
  effect begins with the call of \<open>detectPlatform\<close>, before storage and clock are read.
\<close>

theorem classification_precedes_cooldown_check:
  "cooldown ([DISMISS_KEY \<mapsto> ''1000''] DISMISS_KEY) 3601000 \<and>
   trace (mountEffect (init_world android_chrome [DISMISS_KEY \<mapsto> ''1000''] 3601000)) =
     [Call_detectPlatform, Call_getItem DISMISS_KEY, Call_dateNow]"
  by code_simp

subsection \<open>The dismiss control\<close>

lemma handleDismiss_persists:
  assumes "render w \<noteq> None"
  shows "render (step Click_dismiss w) = None \<and>
     localStorage (step Click_dismiss w) DISMISS_KEY = Some (toString (now w)) \<and>
     (\<forall>e t1 evs. t1 - now w < 24 * 60 * 60 * 1000 \<longrightarrow>
        render (session e (localStorage (step Click_dismiss w)) t1 evs) = None)"
proof -
  let ?w = "step Click_dismiss w"
  have m: "mounted w"
    using assms by (auto simp: render_def split: if_splits)
  have a: "render ?w = None"
    using assms m by (simp add: browser_defs component_defs Let_def)
  have b: "localStorage ?w DISMISS_KEY = Some (toString (now w))"
    using assms by (simp add: browser_defs component_defs Let_def)
  have "render (session e (localStorage ?w) t1 evs) = None"
    if "t1 - now w < 24 * 60 * 60 * 1000" for e t1 evs
    using session_suppressed [of "localStorage ?w" "toString (now w)" "now w" t1 e evs] b that
    by (simp add: parseInt_toString)
  with a b show ?thesis
    by blast
qed

lemmas card_defs =
  setShowPrompt_def setIsInstalled_def setDeferredPrompt_card_def cleanup_card_def
  handler_card_def installed_card_def handleInstall_card_begin_def
  handleInstall_card_resume_def handleDismiss_card_def render_card_def advance_card_def

lemma handleDismiss_card_only_hides:
  "render_card c \<Longrightarrow>
     \<not> render_card (step_card Click_dismiss c)
     \<and> card_storage (step_card Click_dismiss c) = card_storage c"
  by (simp add: card_defs)

lemma step_card_storage: "card_storage (step_card ev c) = card_storage c"
  by (cases ev) (auto simp: card_defs Let_def split: option.splits)

lemma run_card_storage: "card_storage (run_card evs c) = card_storage c"
  by (induction evs arbitrary: c) (auto simp: step_card_storage)

text \<open>
  C5, as the code has it. On the advisor with the six variants, when guidance is shown
  and the user activates the dismiss control, the guidance is hidden and the decimal
  text of the current time is stored under the dismissal key; every later session of
  that advisor that starts from this storage less than 24 hours after the dismissal
  renders no guidance, in any environment and whatever happens in it. On the
  single-card component the dismiss control hides the card and leaves local storage as
  it was.
\<close>

theorem dismiss_persists_timestamp:
  "(render w \<noteq> None \<longrightarrow>
      render (step Click_dismiss w) = None \<and>
      localStorage (step Click_dismiss w) DISMISS_KEY = Some (toString (now w)) \<and>
      (\<forall>e t1 evs. t1 - now w < 24 * 60 * 60 * 1000 \<longrightarrow>
         render (session e (localStorage (step Click_dismiss w)) t1 evs) = None)) \<and>
   (render_card c \<longrightarrow>
      \<not> render_card (step_card Click_dismiss c)
      \<and> card_storage (step_card Click_dismiss c) = card_storage c)"
  using handleDismiss_persists [of w] handleDismiss_card_only_hides [of c] by blast

theorem dismiss_persists_timestamp_witness:
  "render (session iphone_safari Map.empty 1000 [Advance 2500]) = Some P_ios_safari \<and>
   render (session iphone_safari Map.empty 1000 [Advance 2500, Click_dismiss]) = None \<and>
   localStorage (session iphone_safari Map.empty 1000 [Advance 2500, Click_dismiss]) DISMISS_KEY
     = Some ''3500'' \<and>
   render (session iphone_wechat
     (localStorage (session iphone_safari Map.empty 1000 [Advance 2500, Click_dismiss]))
     86403000 [Advance 2500]) = None \<and>
   render_card (session_card desktop_chrome Map.empty 0
     [Fire_beforeinstallprompt 7, Advance 2000]) \<and>
   \<not> render_card (session_card desktop_chrome Map.empty 0
     [Fire_beforeinstallprompt 7, Advance 2000, Click_dismiss])"
proof -
  let ?w = "session iphone_safari Map.empty 1000 [Advance 2500]"
  let ?c = "session_card desktop_chrome Map.empty 0 [Fire_beforeinstallprompt 7, Advance 2000]"
  have r: "render ?w = Some P_ios_safari"
    by code_simp
  have n: "now ?w = 3500"
    by code_simp
  have s: "session iphone_safari Map.empty 1000 [Advance 2500, Click_dismiss] = step Click_dismiss ?w"
    by (simp add: session_def)
  have ts: "toString 3500 = ''3500''"
    by code_simp
  have rc: "render_card ?c"
    by code_simp
  have sc: "session_card desktop_chrome Map.empty 0
      [Fire_beforeinstallprompt 7, Advance 2000, Click_dismiss] = step_card Click_dismiss ?c"
    by (simp add: session_card_def)
  have nr: "render ?w \<noteq> None"
    using r by simp
  note advisor = dismiss_persists_timestamp [of ?w ?c, THEN conjunct1, THEN mp, OF nr]
  note single = dismiss_persists_timestamp [of ?w ?c, THEN conjunct2, THEN mp, OF rc]
  show ?thesis
    unfolding s sc using advisor single r rc unfolding n ts by simp
qed

text \<open>
  A session of the single-card component that shows it: the card is shown two seconds
  after the availability signal, the dismiss control hides it, nothing is stored under
  the dismissal key, and a session that starts one hour later from the same storage
  shows the card again.
\<close>

theorem dismiss_card_stores_nothing:
  "render_card (session_card desktop_chrome Map.empty 0
     [Fire_beforeinstallprompt 7, Advance 2000]) \<and>
   \<not> render_card (session_card desktop_chrome Map.empty 0
     [Fire_beforeinstallprompt 7, Advance 2000, Click_dismiss]) \<and>
   card_storage (session_card desktop_chrome Map.empty 0
     [Fire_beforeinstallprompt 7, Advance 2000, Click_dismiss]) DISMISS_KEY = None \<and>
   render_card (session_card desktop_chrome
     (card_storage (session_card desktop_chrome Map.empty 0
        [Fire_beforeinstallprompt 7, Advance 2000, Click_dismiss]))
     3600000 [Fire_beforeinstallprompt 8, Advance 2000])"
  by code_simp

subsection \<open>Teardown\<close>

text \<open>
  C4. The cleanup function removes the \<open>beforeinstallprompt\<close> listener and clears the
  fallback timeout, and nothing else. On a desktop browser the \<open>appinstalled\<close>
  listener is still registered after unmounting and runs when the event comes; on an
  iPhone, where the effect returns no cleanup function, the display-delay timeout is
  still pending after unmounting and runs when it falls due.
\<close>

theorem unmount_leaves_appinstalled_listener:
  "listeners (session desktop_chrome Map.empty 0 []) =
     [(BeforeInstallPrompt, L_handler), (AppInstalled, L_installed)] \<and>
   listeners (session desktop_chrome Map.empty 0 [Unmount]) = [(AppInstalled, L_installed)] \<and>
   Run_listener L_installed
     \<in> set (trace (session desktop_chrome Map.empty 0 [Unmount, Fire_appinstalled])) \<and>
   timers (session iphone_safari Map.empty 0 [Unmount]) =
     [\<lparr>timer_id = 1, due = 2500, callback = T_show\<rparr>] \<and>
   Run_timeout T_show
     \<in> set (trace (session iphone_safari Map.empty 0 [Unmount, Advance 2500]))"
  by code_simp

subsection \<open>After the installation-completed signal\<close>

lemma settled_render: "settled w \<Longrightarrow> render w = None"
  by (auto simp: settled_def render_def)

lemma run_timeout_settled:
  assumes "settled w" and "nativeFired w \<or> cb \<noteq> T_fallback"
  shows "settled (run_timeout cb w) \<and> nativeFired (run_timeout cb w) = nativeFired w
     \<and> timers (run_timeout cb w) = timers w"
  using assms by (cases cb) (auto simp: settled_def browser_defs)

lemma fire_all_settled:
  "settled w \<Longrightarrow> nativeFired w \<or> T_fallback \<notin> set (map callback tms) \<Longrightarrow>
     settled (fire_all tms w)"
proof (induction tms arbitrary: w)
  case Nil
  then show ?case by simp
next
  case (Cons tm tms)
  let ?w1 = "log (Run_timeout (callback tm))
      (w\<lparr>now := due tm, timers := filter (\<lambda>x. timer_id x \<noteq> timer_id tm) (timers w)\<rparr>)"
  have s1: "settled ?w1" and n1: "nativeFired ?w1 = nativeFired w"
    using Cons.prems(1) by (auto simp: settled_def log_def)
  have c: "nativeFired ?w1 \<or> callback tm \<noteq> T_fallback"
    using Cons.prems(2) n1 by auto
  have "settled (run_timeout (callback tm) ?w1)"
    and "nativeFired (run_timeout (callback tm) ?w1) = nativeFired w"
    using run_timeout_settled [OF s1 c] n1 by auto
  then show ?case
    using Cons.IH [of "run_timeout (callback tm) ?w1"] Cons.prems(2) by auto
qed

lemma advance_settled: "settled w \<Longrightarrow> settled (advance d w)"
proof -
  assume s: "settled w"
  let ?ready = "sort_key due (filter (\<lambda>tm. due tm \<le> now w + int d) (timers w))"
  have "nativeFired w \<or> T_fallback \<notin> set (map callback ?ready)"
    using s by (auto simp: settled_def)
  then have "settled (fire_all ?ready w)"
    using s by (rule fire_all_settled [rotated])
  then show ?thesis
    by (simp add: advance_def Let_def settled_def)
qed

lemma step_settled: "settled w \<Longrightarrow> \<not> is_signal ev \<Longrightarrow> settled (step ev w)"
proof (cases ev)
  case (Advance d)
  assume "settled w"
  then show ?thesis
    using Advance by (simp add: advance_settled)
qed (auto simp: settled_def browser_defs component_defs Let_def split: option.splits)

lemma run_settled: "settled w \<Longrightarrow> no_signal evs \<Longrightarrow> settled (run evs w)"
  by (induction evs arbitrary: w) (auto simp: no_signal_def step_settled)

text \<open>
  What the \<open>appinstalled\<close> listener does achieve: while no new availability signal
  arrives, and provided the fallback timeout cannot fire unguarded (the availability
  signal was seen before, or no fallback timeout is pending), nothing is rendered after
  it ran; a display-delay timeout that was pending renders nothing when it fires.
\<close>

lemma installed_hides_display_delay:
  assumes "(AppInstalled, L_installed) \<in> set (listeners w)"
    and "nativeFired w \<or> T_fallback \<notin> set (map callback (timers w))"
    and "no_signal evs"
  shows "render (run evs (step Fire_appinstalled w)) = None"
proof -
  have "settled (step Fire_appinstalled w)"
    using assms(1,2) by (auto simp: settled_def browser_defs component_defs)
  then have "settled (run evs (step Fire_appinstalled w))"
    using assms(3) by (rule run_settled)
  then show ?thesis
    by (rule settled_render)
qed

text \<open>
  The single-card component keeps the state \<open>isInstalled\<close>, which its
  \<open>appinstalled\<close> listener sets and nothing resets: once the listener ran, that
  component renders nothing for the rest of the session, whatever comes.
\<close>

lemma step_card_latch:
  "\<not> card_mounted c \<or> isInstalled_card c \<Longrightarrow>
     \<not> card_mounted (step_card ev c) \<or> isInstalled_card (step_card ev c)"
  by (cases ev) (auto simp: card_defs Let_def split: option.splits)

lemma run_card_latch:
  "\<not> card_mounted c \<or> isInstalled_card c \<Longrightarrow> \<not> render_card (run_card evs c)"
proof (induction evs arbitrary: c)
  case Nil
  then show ?case by (auto simp: render_card_def)
next
  case (Cons ev evs)
  then show ?case
    using step_card_latch [of c ev] by simp
qed

lemma installed_card_latches:
  assumes "(AppInstalled, L_installed) \<in> set (card_listeners c)"
  shows "\<not> render_card (run_card evs (step_card Fire_appinstalled c))"
proof -
  have "\<not> card_mounted (step_card Fire_appinstalled c)
      \<or> isInstalled_card (step_card Fire_appinstalled c)"
    using assms by (auto simp: card_defs)
  then show ?thesis
    by (rule run_card_latch)
qed

text \<open>
  C6. After the installation-completed signal no guidance should appear for the rest
  of the session. The advisor breaks this on Android: the signal comes one second after
  mount, before any availability signal; the \<open>appinstalled\<close> listener runs and sets
  the prompt type to \<open>none\<close>; 3500 ms after mount the fallback timeout, which only
  asks whether the availability signal was seen, sets the prompt type again and shows
  the fallback card.
\<close>

theorem fallback_after_installed:
  "Run_listener L_installed
     \<in> set (trace (session android_chrome Map.empty 0 [Advance 1000, Fire_appinstalled])) \<and>
   render (session android_chrome Map.empty 0 [Advance 1000, Fire_appinstalled]) = None \<and>
   render (session android_chrome Map.empty 0 [Advance 1000, Fire_appinstalled, Advance 2500])
     = Some P_android_fallback"
  by code_simp

theorem fallback_after_installed_witness:
  "mounted (session android_chrome Map.empty 0 [Advance 1000, Fire_appinstalled, Advance 2500]) \<and>
   visible (session android_chrome Map.empty 0 [Advance 1000, Fire_appinstalled, Advance 2500]) \<and>
   promptType (session android_chrome Map.empty 0 [Advance 1000, Fire_appinstalled, Advance 2500])
     = P_android_fallback"
proof -
  have "render (session android_chrome Map.empty 0 [Advance 1000, Fire_appinstalled, Advance 2500])
      = Some P_android_fallback"
    using fallback_after_installed by blast
  then show ?thesis
    by (auto simp: render_def split: if_splits)
qed

subsection \<open>Waiting for the availability signal\<close>

lemma run_append: "run (evs @ evs') w = run evs' (run evs w)"
  by (induction evs arbitrary: w) auto

lemma native_not_standalone: "detected (detectPlatform e) = P_native \<Longrightarrow> \<not> standalone e"
  by (auto simp: detectPlatform_def Let_def split: if_splits)

lemma mountEffect_native_android:
  assumes "detected (detectPlatform e) = P_native" and "\<not> cooldown (store DISMISS_KEY) t0"
    and "isAndroid (userAgent e)"
  shows "waiting 1 (t0 + 3500) (mountEffect (init_world e store t0))"
  using assms native_not_standalone [of e]
  by (simp add: mountEffect_def isStandalone_detect init_world_def waiting_def browser_defs
      Let_def)

lemma mountEffect_native_other:
  assumes "detected (detectPlatform e) = P_native" and "\<not> isAndroid (userAgent e)"
  shows "quiet (mountEffect (init_world e store t0))"
  using assms native_not_standalone [of e]
  by (simp add: mountEffect_def isStandalone_detect init_world_def quiet_def browser_defs
      Let_def)

lemma step_waiting:
  assumes "waiting i D w" and "\<not> is_signal ev" and "ev \<noteq> Unmount"
    and "now w + int (elapsed [ev]) < D"
  shows "waiting i D (step ev w) \<and> now (step ev w) = now w + int (elapsed [ev])"
  using assms
  by (cases ev)
     (auto simp: waiting_def advance_def browser_defs component_defs Let_def
        split: option.splits)

lemma elapsed_Cons: "elapsed (ev # evs) = elapsed [ev] + elapsed evs"
  by (cases ev) auto

lemma run_waiting:
  "waiting i D w \<Longrightarrow> no_signal evs \<Longrightarrow> Unmount \<notin> set evs \<Longrightarrow>
     now w + int (elapsed evs) < D \<Longrightarrow>
     waiting i D (run evs w) \<and> now (run evs w) = now w + int (elapsed evs)"
proof (induction evs arbitrary: w)
  case Nil
  then show ?case by simp
next
  case (Cons ev evs)
  have e: "elapsed (ev # evs) = elapsed [ev] + elapsed evs"
    by (rule elapsed_Cons)
  have s: "waiting i D (step ev w) \<and> now (step ev w) = now w + int (elapsed [ev])"
    using Cons.prems e by (intro step_waiting) (auto simp: no_signal_def)
  then have "waiting i D (run evs (step ev w))
      \<and> now (run evs (step ev w)) = now (step ev w) + int (elapsed evs)"
    using Cons.prems e by (intro Cons.IH) (auto simp: no_signal_def)
  with s e show ?case by simp
qed

lemma waiting_render: "waiting i D w \<Longrightarrow> render w = None"
  by (simp add: waiting_def render_def)

lemma waiting_timeout:
  "waiting i D w \<Longrightarrow> D \<le> now w + int d \<Longrightarrow> render (step (Advance d) w) = Some P_android_fallback"
  by (simp add: waiting_def advance_def render_def browser_defs)

text \<open>
  C7. On the native-capable classification, outside the cooldown and while the
  component stays mounted: on Android, as long as less than 3500 ms have passed since
  mount without the availability signal nothing is shown, and at the step that brings
  the time since mount to 3500 ms or more the fallback guidance is shown. On a device
  that is not Android, no guidance is shown in any session without the signal.
\<close>

theorem fallback_after_timeout:
  "(detected (detectPlatform e) = P_native \<and> \<not> cooldown (store DISMISS_KEY) t0
      \<and> isAndroid (userAgent e) \<and> no_signal evs \<and> Unmount \<notin> set evs
      \<and> elapsed evs < 3500 \<and> 3500 \<le> elapsed evs + d \<longrightarrow>
        render (session e store t0 evs) = None
        \<and> render (session e store t0 (evs @ [Advance d])) = Some P_android_fallback) \<and>
   (detected (detectPlatform e) = P_native \<and> \<not> isAndroid (userAgent e) \<and> no_signal evs' \<longrightarrow>
        render (session e store t0 evs') = None)"
proof (intro conjI impI)
  let ?w = "mountEffect (init_world e store t0)"
  assume h: "detected (detectPlatform e) = P_native \<and> \<not> cooldown (store DISMISS_KEY) t0
      \<and> isAndroid (userAgent e) \<and> no_signal evs \<and> Unmount \<notin> set evs
      \<and> elapsed evs < 3500 \<and> 3500 \<le> elapsed evs + d"
  then have w: "waiting 1 (t0 + 3500) ?w"
    using mountEffect_native_android [of e store t0] by blast
  then have n: "now ?w = t0"
    using h native_not_standalone [of e]
    by (simp add: mountEffect_def isStandalone_detect init_world_def browser_defs Let_def)
  have r: "waiting 1 (t0 + 3500) (run evs ?w) \<and> now (run evs ?w) = t0 + int (elapsed evs)"
    using run_waiting [of 1 "t0 + 3500" ?w evs] w h n by simp
  then have "render (run evs ?w) = None"
    using waiting_render by blast
  then show "render (session e store t0 evs) = None"
    by (simp add: session_def)
  have "render (step (Advance d) (run evs ?w)) = Some P_android_fallback"
    using r h by (intro waiting_timeout [of 1 "t0 + 3500"]) auto
  then show "render (session e store t0 (evs @ [Advance d])) = Some P_android_fallback"
    by (simp add: session_def run_append)
next
  assume h: "detected (detectPlatform e) = P_native \<and> \<not> isAndroid (userAgent e) \<and> no_signal evs'"
  then have "quiet (run evs' (mountEffect (init_world e store t0)))"
    by (simp add: mountEffect_native_other run_quiet_no_signal)
  then show "render (session e store t0 evs') = None"
    by (simp add: session_def quiet_render)
qed

theorem fallback_after_timeout_witness:
  "render (session android_chrome Map.empty 0 [Advance 2000, Fire_appinstalled, Advance 1499]) = None \<and>
   render (session android_chrome Map.empty 0
     ([Advance 2000, Fire_appinstalled, Advance 1499] @ [Advance 1])) = Some P_android_fallback \<and>
   render (session desktop_chrome Map.empty 0 [Advance 3500, Click_install, Advance 60000]) = None"
proof -
  have a1: "detected (detectPlatform android_chrome) = P_native
      \<and> \<not> cooldown (Map.empty DISMISS_KEY) 0 \<and> isAndroid (userAgent android_chrome)"
    by code_simp
  have a2: "no_signal [Advance 2000, Fire_appinstalled, Advance 1499]
      \<and> Unmount \<notin> set [Advance 2000, Fire_appinstalled, Advance 1499]
      \<and> elapsed [Advance 2000, Fire_appinstalled, Advance 1499] < 3500
      \<and> 3500 \<le> elapsed [Advance 2000, Fire_appinstalled, Advance 1499] + 1"
    by (simp add: no_signal_def)
  have a: "detected (detectPlatform android_chrome) = P_native
      \<and> \<not> cooldown (Map.empty DISMISS_KEY) 0 \<and> isAndroid (userAgent android_chrome)
      \<and> no_signal [Advance 2000, Fire_appinstalled, Advance 1499]
      \<and> Unmount \<notin> set [Advance 2000, Fire_appinstalled, Advance 1499]
      \<and> elapsed [Advance 2000, Fire_appinstalled, Advance 1499] < 3500
      \<and> 3500 \<le> elapsed [Advance 2000, Fire_appinstalled, Advance 1499] + 1"
    using a1 a2 by blast
  have b1: "detected (detectPlatform desktop_chrome) = P_native
      \<and> \<not> isAndroid (userAgent desktop_chrome)"
    by code_simp
  have b2: "no_signal [Advance 3500, Click_install, Advance 60000]"
    by (simp add: no_signal_def)
  have b: "detected (detectPlatform desktop_chrome) = P_native
      \<and> \<not> isAndroid (userAgent desktop_chrome)
      \<and> no_signal [Advance 3500, Click_install, Advance 60000]"
    using b1 b2 by blast
  note android = fallback_after_timeout [of android_chrome Map.empty 0
      "[Advance 2000, Fire_appinstalled, Advance 1499]" 1 "[]", THEN conjunct1, THEN mp, OF a]
  note desktop = fallback_after_timeout [of desktop_chrome Map.empty 0 "[]" 0
      "[Advance 3500, Click_install, Advance 60000]", THEN conjunct2, THEN mp, OF b]
  show ?thesis
    using android desktop by (intro conjI) (erule conjE, assumption)+
qed

end
